theory Spec2Isabelle
  imports Main "HOL-Library.Multiset"
begin

section \<open>The Todo service of \<^verbatim>\<open>src/main.py\<close>\<close>

subsection \<open>Data model\<close>

text \<open>
  \<^verbatim>\<open>class Todo(SQLModel, table=True)\<close>: the one class is both the table row and the
  body of the create request (the source's comment: "DB Structure/Tables + same used at
  API level"). \<^verbatim>\<open>id: int | None\<close> is the primary key and \<^verbatim>\<open>description: str | None\<close> defaults
  to \<^verbatim>\<open>None\<close>. \<^verbatim>\<open>title: str\<close> is required, but a table class is not validated when it is
  built from a request body: a body whose title is missing or \<^verbatim>\<open>null\<close> reaches the handler
  as an object whose title is \<^verbatim>\<open>None\<close>, and only the NOT NULL column stops it. So the title
  of the object is optional here, and that a stored row has one is an invariant to prove.
  The values a body carries are taken to be of the declared types.
  The field \<^verbatim>\<open>id\<close> is written \<open>id'\<close> because \<open>id\<close> is the identity function of HOL.
\<close>

record Todo =
  id' :: "int option"
  title :: "string option"
  description :: "string option"

text \<open>
  The table: its live rows, kept in the order in which they were inserted. The order in
  which a query returns them is the storage engine's matter (see \<open>all_todo\<close>).
\<close>

type_synonym table = "Todo list"

text \<open>
  \<^verbatim>\<open>class TodoUpdate(BaseModel)\<close>: both fields are \<^verbatim>\<open>str | None\<close> with default \<^verbatim>\<open>None\<close>.
  The field names carry a suffix to keep them apart from those of \<open>Todo\<close>.
\<close>

record TodoUpdate =
  title_upd :: "string option"
  description_upd :: "string option"

text \<open>
  The JSON body of a PUT request before it is parsed into \<open>TodoUpdate\<close>: a key is left
  out, carries \<^verbatim>\<open>null\<close>, or carries a value. Parsing gives a key that is left out its
  default \<^verbatim>\<open>None\<close>, and \<^verbatim>\<open>null\<close> is \<^verbatim>\<open>None\<close> as well.
\<close>

datatype 'a field = Omitted | Null | Value 'a

record TodoUpdate_body =
  title_field :: "string field"
  description_field :: "string field"

fun field_value :: "'a field \<Rightarrow> 'a option" where
  "field_value Omitted = None"
| "field_value Null = None"
| "field_value (Value v) = Some v"

definition TodoUpdate_parse :: "TodoUpdate_body \<Rightarrow> TodoUpdate" where
  "TodoUpdate_parse body =
     \<lparr>title_upd = field_value (title_field body),
      description_upd = field_value (description_field body)\<rparr>"

text \<open>
  What a handler can raise: the \<^verbatim>\<open>HTTPException(status_code, detail)\<close> of the source, and
  the errors of the persistence layer that the source does not catch: an integer that
  does not fit the key column, a violated constraint on insert (primary key, NOT NULL),
  and a refresh of an object whose row is gone.
\<close>

datatype error = HTTPException nat string | OverflowError | IntegrityError | InvalidRequestError

subsection \<open>The session operations the handlers call\<close>

text \<open>
  The key column holds a signed 64-bit integer (the engine of the repository's tests,
  \<^verbatim>\<open>sqlite://\<close> in \<^verbatim>\<open>src/test_main.py\<close>). Python's \<^verbatim>\<open>int\<close> is unbounded, and the route and the
  request body accept any: binding an integer outside the range to a statement raises
  \<^verbatim>\<open>OverflowError\<close>.
\<close>

definition key_range :: "int \<Rightarrow> bool" where
  "key_range i = (- 9223372036854775808 \<le> i \<and> i \<le> 9223372036854775807)"

text \<open>The first row of the table with the key \<open>i\<close>.\<close>

fun lookup_row :: "int \<Rightarrow> table \<Rightarrow> Todo option" where
  "lookup_row i [] = None"
| "lookup_row i (r # rs) = (if id' r = Some i then Some r else lookup_row i rs)"

text \<open>
  \<^verbatim>\<open>session.get(Todo, todo_id)\<close>: the row with that primary key, or \<^verbatim>\<open>None\<close>; the overflow error
  for an id that does not fit the key column.
\<close>

definition session_get :: "int \<Rightarrow> table \<Rightarrow> error + Todo option" where
  "session_get i rows = (if key_range i then Inr (lookup_row i rows) else Inl OverflowError)"

text \<open>
  The primary key an inserted object gets: its own \<^verbatim>\<open>id\<close> when it has one, otherwise the
  one the database generates. The generator belongs to the storage engine and is the
  parameter \<open>assign\<close>.
\<close>

definition new_key :: "(table \<Rightarrow> int) \<Rightarrow> Todo \<Rightarrow> table \<Rightarrow> int" where
  "new_key assign todo rows = (case id' todo of None \<Rightarrow> assign rows | Some i \<Rightarrow> i)"

text \<open>Whether the table holds a row with primary key \<open>i\<close>, a key that fits the column.\<close>

definition stored :: "int \<Rightarrow> table \<Rightarrow> bool" where
  "stored i rows = (key_range i \<and> Some i \<in> set (map id' rows))"

text \<open>
  \<^verbatim>\<open>session.add(todo); session.commit()\<close> for a new object: an INSERT. A key that does not
  fit the column raises the overflow error when it is bound; the NOT NULL constraint
  rejects an object without a title and the primary key constraint a key that is taken.
\<close>

definition insert_row :: "(table \<Rightarrow> int) \<Rightarrow> Todo \<Rightarrow> table \<Rightarrow> error + (int \<times> table)" where
  "insert_row assign todo rows =
     (let i = new_key assign todo rows
      in if \<not> key_range i then Inl OverflowError
         else if title todo = None then Inl IntegrityError
         else if stored i rows then Inl IntegrityError
         else Inr (i, rows @ [todo\<lparr>id' := Some i\<rparr>]))"

text \<open>
  \<^verbatim>\<open>session.add(todo); session.commit()\<close> for an object loaded from the table: an UPDATE of
  the row with its primary key.
\<close>

definition update_row :: "int \<Rightarrow> Todo \<Rightarrow> table \<Rightarrow> table" where
  "update_row i todo rows = map (\<lambda>r. if id' r = Some i then todo else r) rows"

text \<open>\<^verbatim>\<open>session.delete(todo); session.commit()\<close>: a DELETE of the row with its primary key.\<close>

definition delete_row :: "int \<Rightarrow> table \<Rightarrow> table" where
  "delete_row i rows = filter (\<lambda>r. id' r \<noteq> Some i) rows"

text \<open>\<^verbatim>\<open>session.refresh(todo)\<close>: the object's attributes are read again from its row.\<close>

definition session_refresh :: "int \<Rightarrow> table \<Rightarrow> error + Todo" where
  "session_refresh i rows =
     (case session_get i rows of
        Inl e \<Rightarrow> Inl e
      | Inr None \<Rightarrow> Inl InvalidRequestError
      | Inr (Some t) \<Rightarrow> Inr t)"

subsection \<open>The handlers\<close>

text \<open>
  Every handler takes the table and returns what it returns or raises together with the
  table it leaves behind.
\<close>

definition create_todo :: "(table \<Rightarrow> int) \<Rightarrow> Todo \<Rightarrow> table \<Rightarrow> (error + Todo) \<times> table" where
  "create_todo assign todo rows =
     (case insert_row assign todo rows of
        Inl e \<Rightarrow> (Inl e, rows)
      | Inr (i, rows') \<Rightarrow> (session_refresh i rows', rows'))"

text \<open>
  \<^verbatim>\<open>session.exec(select(Todo)).all()\<close>: the query has no ORDER BY, so the order of the result
  is the one in which the storage engine scans the table: the parameter \<open>scan\<close>.
\<close>

definition all_todo :: "(table \<Rightarrow> Todo list) \<Rightarrow> table \<Rightarrow> (error + Todo list) \<times> table" where
  "all_todo scan rows = (Inr (scan rows), rows)"

definition todo_by_id :: "int \<Rightarrow> table \<Rightarrow> (error + Todo) \<times> table" where
  "todo_by_id todo_id rows =
     (case session_get todo_id rows of
        Inl e \<Rightarrow> (Inl e, rows)
      | Inr None \<Rightarrow> (Inl (HTTPException 404 ''Todo not found''), rows)
      | Inr (Some todo) \<Rightarrow> (Inr todo, rows))"

definition update_todo :: "int \<Rightarrow> TodoUpdate \<Rightarrow> table \<Rightarrow> (error + Todo) \<times> table" where
  "update_todo todo_id todo_update rows =
     (case session_get todo_id rows of
        Inl e \<Rightarrow> (Inl e, rows)
      | Inr None \<Rightarrow> (Inl (HTTPException 404 ''Todo not found''), rows)
      | Inr (Some todo) \<Rightarrow>
          (let todo1 = (case title_upd todo_update of
                          None \<Rightarrow> todo
                        | Some v \<Rightarrow> todo\<lparr>title := Some v\<rparr>);
               todo2 = (case description_upd todo_update of
                          None \<Rightarrow> todo1
                        | Some v \<Rightarrow> todo1\<lparr>description := Some v\<rparr>);
               rows' = update_row todo_id todo2 rows
           in (session_refresh todo_id rows', rows')))"

definition delete_todo :: "int \<Rightarrow> table \<Rightarrow> (error + (string \<times> string) list) \<times> table" where
  "delete_todo todo_id rows =
     (case session_get todo_id rows of
        Inl e \<Rightarrow> (Inl e, rows)
      | Inr None \<Rightarrow> (Inl (HTTPException 404 ''Todo not found''), rows)
      | Inr (Some todo) \<Rightarrow>
          (Inr [(''message'', ''Todo deleted successfully'')], delete_row todo_id rows))"

subsection \<open>The routes\<close>

datatype request =
    POST_createTodo Todo
  | GET_allTodo
  | GET_todo int
  | PUT_todo int TodoUpdate_body
  | DELETE_todo int

datatype reply = ReplyTodo Todo | ReplyTodos "Todo list" | ReplyDict "(string \<times> string) list"

fun reply_with :: "('a \<Rightarrow> reply) \<Rightarrow> (error + 'a) \<times> table \<Rightarrow> (error + reply) \<times> table" where
  "reply_with f (Inl e, rows) = (Inl e, rows)"
| "reply_with f (Inr v, rows) = (Inr (f v), rows)"

fun handle :: "(table \<Rightarrow> int) \<Rightarrow> (table \<Rightarrow> Todo list) \<Rightarrow> request \<Rightarrow> table \<Rightarrow> (error + reply) \<times> table" where
  "handle assign scan (POST_createTodo todo) rows = reply_with ReplyTodo (create_todo assign todo rows)"
| "handle assign scan GET_allTodo rows = reply_with ReplyTodos (all_todo scan rows)"
| "handle assign scan (GET_todo i) rows = reply_with ReplyTodo (todo_by_id i rows)"
| "handle assign scan (PUT_todo i body) rows = reply_with ReplyTodo (update_todo i (TodoUpdate_parse body) rows)"
| "handle assign scan (DELETE_todo i) rows = reply_with ReplyDict (delete_todo i rows)"

text \<open>
  The response the framework sends: a returned value as JSON with status 200, an
  \<^verbatim>\<open>HTTPException\<close> with its status and the body \<^verbatim>\<open>{"detail": ...}\<close>, any other exception as
  status 500, whose plain-text body is written as a string.
\<close>

datatype json = JNull | JInt int | JString string | JArray "json list" | JObject "(string \<times> json) list"

definition Todo_json :: "Todo \<Rightarrow> json" where
  "Todo_json t =
     JObject [(''id'', case id' t of None \<Rightarrow> JNull | Some i \<Rightarrow> JInt i),
              (''title'', case title t of None \<Rightarrow> JNull | Some s \<Rightarrow> JString s),
              (''description'', case description t of None \<Rightarrow> JNull | Some d \<Rightarrow> JString d)]"

fun reply_json :: "reply \<Rightarrow> json" where
  "reply_json (ReplyTodo t) = Todo_json t"
| "reply_json (ReplyTodos ts) = JArray (map Todo_json ts)"
| "reply_json (ReplyDict kvs) = JObject (map (\<lambda>(k, v). (k, JString v)) kvs)"

fun respond :: "error + reply \<Rightarrow> nat \<times> json" where
  "respond (Inr r) = (200, reply_json r)"
| "respond (Inl (HTTPException code detail)) = (code, JObject [(''detail'', JString detail)])"
| "respond (Inl OverflowError) = (500, JString ''Internal Server Error'')"
| "respond (Inl IntegrityError) = (500, JString ''Internal Server Error'')"
| "respond (Inl InvalidRequestError) = (500, JString ''Internal Server Error'')"

definition app :: "(table \<Rightarrow> int) \<Rightarrow> (table \<Rightarrow> Todo list) \<Rightarrow> request \<Rightarrow> table \<Rightarrow> (nat \<times> json) \<times> table" where
  "app assign scan req rows = (respond (fst (handle assign scan req rows)), snd (handle assign scan req rows))"

text \<open>The table after a sequence of requests.\<close>

fun run :: "(table \<Rightarrow> int) \<Rightarrow> (table \<Rightarrow> Todo list) \<Rightarrow> request list \<Rightarrow> table \<Rightarrow> table" where
  "run assign scan [] rows = rows"
| "run assign scan (q # qs) rows = run assign scan qs (snd (handle assign scan q rows))"

subsection \<open>A storage engine that keys and scans by row id\<close>

text \<open>
  The engine of the repository's tests generates the largest key in the table plus one
  (1 for an empty table); when the largest key is the largest the column holds, it tries
  keys drawn at random: the parameter \<open>draw\<close> is the key it settles on, and the insert
  fails when that key is taken. It scans a table in the order of the keys.
\<close>

definition rowid_assign :: "(table \<Rightarrow> int) \<Rightarrow> table \<Rightarrow> int" where
  "rowid_assign draw rows =
     (case map (\<lambda>r. the (id' r)) rows of
        [] \<Rightarrow> 1
      | k # ks \<Rightarrow> (if fold max ks k = 9223372036854775807 then draw rows else fold max ks k + 1))"

definition rowid_scan :: "table \<Rightarrow> Todo list" where
  "rowid_scan rows = sort_key (\<lambda>r. the (id' r)) rows"

text \<open>A draw for the examples, none of which reaches the largest key.\<close>

definition draw_one :: "table \<Rightarrow> int" where
  "draw_one rows = 1"

subsection \<open>Notions used in the statements\<close>

text \<open>
  The row a PUT body leaves behind: a key that carries a value overwrites the field, a
  key that is left out or carries \<^verbatim>\<open>null\<close> leaves the field as it was.
\<close>

definition patched :: "TodoUpdate_body \<Rightarrow> Todo \<Rightarrow> Todo" where
  "patched body t =
     t\<lparr>title := (case title_field body of Value v \<Rightarrow> Some v | _ \<Rightarrow> title t),
       description := (case description_field body of Value v \<Rightarrow> Some v | _ \<Rightarrow> description t)\<rparr>"



text \<open>
  A create request whose row, once inserted, has the key \<open>i\<close> (a request without a title
  inserts nothing); and that no request of a sequence, run from the given table, is one.
\<close>

fun inserts_key :: "(table \<Rightarrow> int) \<Rightarrow> int \<Rightarrow> request \<Rightarrow> table \<Rightarrow> bool" where
  "inserts_key assign i (POST_createTodo todo) rows = (new_key assign todo rows = i \<and> title todo \<noteq> None)"
| "inserts_key assign i _ rows = False"

fun never_inserts :: "(table \<Rightarrow> int) \<Rightarrow> (table \<Rightarrow> Todo list) \<Rightarrow> int \<Rightarrow> request list \<Rightarrow> table \<Rightarrow> bool" where
  "never_inserts assign scan i [] rows = True"
| "never_inserts assign scan i (q # qs) rows =
     (\<not> inserts_key assign i q rows
      \<and> never_inserts assign scan i qs (snd (handle assign scan q rows)))"

text \<open>
  The invariants of the table: every row has a primary key and a title, and no two rows
  share a key.
\<close>

definition keys_present :: "table \<Rightarrow> bool" where
  "keys_present rows = list_all (\<lambda>r. id' r \<noteq> None) rows"

definition titles_present :: "table \<Rightarrow> bool" where
  "titles_present rows = list_all (\<lambda>r. title r \<noteq> None) rows"




subsection \<open>Facts about the session operations\<close>

lemma lookup_row_SomeD: "lookup_row i rows = Some t \<Longrightarrow> id' t = Some i \<and> t \<in> set rows"
  by (induction rows) (auto split: if_splits)

lemma lookup_row_None_iff: "lookup_row i rows = None \<longleftrightarrow> Some i \<notin> set (map id' rows)"
  by (induction rows) auto

lemma lookup_row_append:
  "lookup_row i (xs @ ys) = (case lookup_row i xs of None \<Rightarrow> lookup_row i ys | Some t \<Rightarrow> Some t)"
  by (induction xs) auto

lemma lookup_row_update_row_same:
  "lookup_row i rows = Some t \<Longrightarrow> id' t2 = Some i \<Longrightarrow> lookup_row i (update_row i t2 rows) = Some t2"
  by (induction rows) (auto simp: update_row_def split: if_splits)

lemma lookup_row_update_row_other:
  "j \<noteq> i \<Longrightarrow> id' t2 = Some i \<Longrightarrow> lookup_row j (update_row i t2 rows) = lookup_row j rows"
  by (induction rows) (auto simp: update_row_def)

lemma keys_update_row: "id' t2 = Some i \<Longrightarrow> map id' (update_row i t2 rows) = map id' rows"
  by (induction rows) (auto simp: update_row_def)

lemma lookup_row_delete_row:
  "lookup_row j (delete_row i rows) = (if j = i then None else lookup_row j rows)"
  by (induction rows) (auto simp: delete_row_def)

lemma keys_delete_row: "map id' (delete_row i rows) = filter (\<lambda>k. k \<noteq> Some i) (map id' rows)"
  by (induction rows) (auto simp: delete_row_def)

lemma session_get_found:
  "session_get i rows = Inr (Some t) \<longleftrightarrow> key_range i \<and> lookup_row i rows = Some t"
  by (simp add: session_get_def)

lemma session_get_missing:
  "session_get i rows = Inr None \<longleftrightarrow> key_range i \<and> \<not> stored i rows"
  by (auto simp: session_get_def stored_def lookup_row_None_iff)

lemma session_get_overflow: "session_get i rows = Inl e \<longleftrightarrow> \<not> key_range i \<and> e = OverflowError"
  by (auto simp: session_get_def)

lemma stored_found: "stored i rows \<longleftrightarrow> (\<exists>t. session_get i rows = Inr (Some t))"
proof -
  have "Some i \<in> set (map id' rows) \<longleftrightarrow> (\<exists>t. lookup_row i rows = Some t)"
    using lookup_row_None_iff [of i rows] by (cases "lookup_row i rows") auto
  then show ?thesis by (auto simp: stored_def session_get_def)
qed

lemma stored_append: "stored i (rows @ [r]) \<longleftrightarrow> stored i rows \<or> (key_range i \<and> id' r = Some i)"
  by (auto simp: stored_def)

lemma patched_key: "session_get i rows = Inr (Some t) \<Longrightarrow> id' (patched b t) = Some i"
  using lookup_row_SomeD [of i rows t] by (simp add: patched_def session_get_found)

lemma keys_update_patched:
  "session_get i rows = Inr (Some t) \<Longrightarrow> map id' (update_row i (patched b t) rows) = map id' rows"
  by (rule keys_update_row [OF patched_key])

lemma update_todo_found:
  assumes "session_get i rows = Inr (Some t)"
  shows "update_todo i (TodoUpdate_parse body) rows
           = (Inr (patched body t), update_row i (patched body t) rows)"
proof -
  have k: "id' (patched body t) = Some i"
    using assms by (rule patched_key)
  have l: "key_range i" "lookup_row i rows = Some t"
    using assms by (simp_all add: session_get_found)
  have p: "(let todo1 = (case title_upd (TodoUpdate_parse body) of None \<Rightarrow> t | Some v \<Rightarrow> t\<lparr>title := Some v\<rparr>)
            in (case description_upd (TodoUpdate_parse body) of None \<Rightarrow> todo1
                | Some v \<Rightarrow> todo1\<lparr>description := Some v\<rparr>)) = patched body t"
    by (cases "title_field body"; cases "description_field body")
       (simp_all add: TodoUpdate_parse_def patched_def)
  have r: "session_refresh i (update_row i (patched body t) rows) = Inr (patched body t)"
    using lookup_row_update_row_same [OF l(2) k] l(1)
    by (simp add: session_refresh_def session_get_def)
  show ?thesis
    using p r by (simp add: update_todo_def assms Let_def)
qed

lemma update_todo_missing:
  "session_get i rows = Inr None \<Longrightarrow> update_todo i u rows = (Inl (HTTPException 404 ''Todo not found''), rows)"
  by (simp add: update_todo_def)

lemma update_todo_overflow:
  "\<not> key_range i \<Longrightarrow> update_todo i u rows = (Inl OverflowError, rows)"
  by (simp add: update_todo_def session_get_def)

lemma create_todo_overflow:
  "\<not> key_range (new_key assign todo rows) \<Longrightarrow> create_todo assign todo rows = (Inl OverflowError, rows)"
  by (simp add: create_todo_def insert_row_def Let_def)

lemma create_todo_untitled:
  "key_range (new_key assign todo rows) \<Longrightarrow> title todo = None
     \<Longrightarrow> create_todo assign todo rows = (Inl IntegrityError, rows)"
  by (simp add: create_todo_def insert_row_def Let_def)

lemma create_todo_taken:
  "stored (new_key assign todo rows) rows \<Longrightarrow> create_todo assign todo rows = (Inl IntegrityError, rows)"
  by (simp add: create_todo_def insert_row_def Let_def stored_def)

lemma create_todo_free:
  assumes "key_range (new_key assign todo rows)" and "title todo \<noteq> None"
    and "\<not> stored (new_key assign todo rows) rows"
  shows "create_todo assign todo rows
           = (Inr (todo\<lparr>id' := Some (new_key assign todo rows)\<rparr>),
              rows @ [todo\<lparr>id' := Some (new_key assign todo rows)\<rparr>])"
proof -
  have "lookup_row (new_key assign todo rows) rows = None"
    using assms(1,3) by (simp add: lookup_row_None_iff stored_def)
  then have "session_refresh (new_key assign todo rows)
               (rows @ [todo\<lparr>id' := Some (new_key assign todo rows)\<rparr>])
             = Inr (todo\<lparr>id' := Some (new_key assign todo rows)\<rparr>)"
    using assms(1) by (simp add: session_refresh_def session_get_def lookup_row_append)
  then show ?thesis
    using assms by (simp add: create_todo_def insert_row_def Let_def)
qed

lemma create_todo_cases:
  obtains (overflow) "\<not> key_range (new_key assign todo rows)"
      "create_todo assign todo rows = (Inl OverflowError, rows)"
  | (rejected) "key_range (new_key assign todo rows)"
      "title todo = None \<or> stored (new_key assign todo rows) rows"
      "create_todo assign todo rows = (Inl IntegrityError, rows)"
  | (inserted) "key_range (new_key assign todo rows)" "title todo \<noteq> None"
      "\<not> stored (new_key assign todo rows) rows"
      "create_todo assign todo rows
         = (Inr (todo\<lparr>id' := Some (new_key assign todo rows)\<rparr>),
            rows @ [todo\<lparr>id' := Some (new_key assign todo rows)\<rparr>])"
proof (cases "key_range (new_key assign todo rows)")
  case False
  then show ?thesis using overflow create_todo_overflow by blast
next
  case True
  show ?thesis
  proof (cases "title todo = None \<or> stored (new_key assign todo rows) rows")
    case True
    then show ?thesis
      using rejected \<open>key_range (new_key assign todo rows)\<close>
        create_todo_untitled [of assign todo rows] create_todo_taken [of assign todo rows]
      by blast
  next
    case False
    then show ?thesis
      using inserted \<open>key_range (new_key assign todo rows)\<close> create_todo_free [of assign todo rows]
      by blast
  qed
qed

lemma session_get_cases:
  obtains (overflow) "\<not> key_range i" "session_get i rows = Inl OverflowError"
  | (missing) "key_range i" "\<not> stored i rows" "session_get i rows = Inr None"
  | (found) t where "session_get i rows = Inr (Some t)"
proof (cases "key_range i")
  case False
  then show ?thesis using overflow by (simp add: session_get_def)
next
  case True
  show ?thesis
  proof (cases "lookup_row i rows")
    case None
    then have "session_get i rows = Inr None" using True by (simp add: session_get_def)
    then show ?thesis using missing True by (simp add: session_get_missing)
  next
    case (Some t)
    then show ?thesis using found True by (simp add: session_get_def)
  qed
qed

subsection \<open>What a request does to the table\<close>

lemma handle_table:
  obtains (same) "snd (handle assign scan q rows) = rows"
  | (ins) todo where "q = POST_createTodo todo" "key_range (new_key assign todo rows)"
      "title todo \<noteq> None" "\<not> stored (new_key assign todo rows) rows"
      "snd (handle assign scan q rows) = rows @ [todo\<lparr>id' := Some (new_key assign todo rows)\<rparr>]"
  | (upd) i b t where "q = PUT_todo i b" "session_get i rows = Inr (Some t)"
      "snd (handle assign scan q rows) = update_row i (patched b t) rows"
  | (del) i where "q = DELETE_todo i" "snd (handle assign scan q rows) = delete_row i rows"
proof (cases q)
  case (POST_createTodo todo)
  show ?thesis
  proof (cases rule: create_todo_cases [of assign todo rows])
    case overflow
    then show ?thesis using same POST_createTodo by simp
  next
    case rejected
    then show ?thesis using same POST_createTodo by simp
  next
    case inserted
    then show ?thesis using ins POST_createTodo by simp
  qed
next
  case GET_allTodo
  then show ?thesis using same by (simp add: all_todo_def)
next
  case (GET_todo i)
  then show ?thesis using same by (simp add: todo_by_id_def split: sum.splits option.splits)
next
  case (PUT_todo i b)
  show ?thesis
  proof (cases rule: session_get_cases [of i rows])
    case overflow
    then show ?thesis using same PUT_todo by (simp add: update_todo_def)
  next
    case missing
    then show ?thesis using same PUT_todo by (simp add: update_todo_def)
  next
    case (found t)
    then show ?thesis
      using upd PUT_todo update_todo_found [of i rows t b] by simp
  qed
next
  case (DELETE_todo i)
  show ?thesis
  proof (cases rule: session_get_cases [of i rows])
    case overflow
    then show ?thesis using same DELETE_todo by (simp add: delete_todo_def)
  next
    case missing
    then show ?thesis using same DELETE_todo by (simp add: delete_todo_def)
  next
    case (found t)
    then show ?thesis using del DELETE_todo by (simp add: delete_todo_def)
  qed
qed

lemma handle_http_error:
  assumes "fst (handle assign scan req rows) = Inl (HTTPException c d)"
  shows "c = 404 \<and> d = ''Todo not found'' \<and> snd (handle assign scan req rows) = rows
         \<and> (\<exists>i. (req = GET_todo i \<or> req = DELETE_todo i \<or> (\<exists>b. req = PUT_todo i b))
                  \<and> key_range i \<and> \<not> stored i rows)"
proof (cases req)
  case (POST_createTodo todo)
  then show ?thesis
    using assms by (cases rule: create_todo_cases [of assign todo rows]) simp_all
next
  case GET_allTodo
  then show ?thesis using assms by (simp add: all_todo_def)
next
  case (GET_todo i)
  show ?thesis
  proof (cases rule: session_get_cases [of i rows])
    case overflow
    then show ?thesis using assms GET_todo by (simp add: todo_by_id_def)
  next
    case missing
    then show ?thesis using assms GET_todo by (auto simp: todo_by_id_def)
  next
    case (found t)
    then show ?thesis using assms GET_todo by (simp add: todo_by_id_def)
  qed
next
  case (PUT_todo i b)
  show ?thesis
  proof (cases rule: session_get_cases [of i rows])
    case overflow
    then show ?thesis using assms PUT_todo by (simp add: update_todo_def)
  next
    case missing
    then show ?thesis using assms PUT_todo by (auto simp: update_todo_def)
  next
    case (found t)
    then show ?thesis using assms PUT_todo update_todo_found [of i rows t b] by simp
  qed
next
  case (DELETE_todo i)
  show ?thesis
  proof (cases rule: session_get_cases [of i rows])
    case overflow
    then show ?thesis using assms DELETE_todo by (simp add: delete_todo_def)
  next
    case missing
    then show ?thesis using assms DELETE_todo by (auto simp: delete_todo_def)
  next
    case (found t)
    then show ?thesis using assms DELETE_todo by (simp add: delete_todo_def)
  qed
qed

lemma keys_present_keys: "keys_present rows \<longleftrightarrow> None \<notin> set (map id' rows)"
  by (induction rows) (auto simp: keys_present_def)

lemma stored_step:
  assumes "\<not> stored i rows" and "\<not> inserts_key assign i q rows"
  shows "\<not> stored i (snd (handle assign scan q rows))"
proof (cases rule: handle_table [of assign scan q rows])
  case same
  then show ?thesis using assms by simp
next
  case (ins todo)
  then show ?thesis using assms by (simp add: stored_append)
next
  case (upd j b t)
  then show ?thesis
    using assms keys_update_patched [OF upd(2), of b] by (auto simp: stored_def)
next
  case (del j)
  then show ?thesis using assms by (auto simp: stored_def keys_delete_row)
qed

lemma stored_run:
  "\<not> stored i rows \<Longrightarrow> never_inserts assign scan i qs rows \<Longrightarrow> \<not> stored i (run assign scan qs rows)"
proof (induction qs arbitrary: rows)
  case Nil
  then show ?case by simp
next
  case (Cons q qs)
  have "\<not> stored i (snd (handle assign scan q rows))"
    using Cons.prems stored_step by simp
  then show ?case using Cons.IH Cons.prems by simp
qed

lemma keys_present_step:
  assumes "keys_present rows"
  shows "keys_present (snd (handle assign scan q rows))"
proof (cases rule: handle_table [of assign scan q rows])
  case same
  then show ?thesis using assms by simp
next
  case (ins todo)
  then show ?thesis using assms by (simp add: keys_present_def)
next
  case (upd j b t)
  then show ?thesis
    using assms keys_update_patched [OF upd(2), of b] by (simp add: keys_present_keys)
next
  case (del j)
  then show ?thesis using assms by (simp add: keys_present_keys keys_delete_row)
qed

lemma keys_present_run: "keys_present rows \<Longrightarrow> keys_present (run assign scan qs rows)"
  by (induction qs arbitrary: rows) (simp_all add: keys_present_step)

lemma titles_present_step:
  assumes "titles_present rows"
  shows "titles_present (snd (handle assign scan q rows))"
proof (cases rule: handle_table [of assign scan q rows])
  case same
  then show ?thesis using assms by simp
next
  case (ins todo)
  then show ?thesis using assms by (simp add: titles_present_def)
next
  case (upd j b t)
  have "t \<in> set rows"
    using upd(2) lookup_row_SomeD [of j rows t] by (simp add: session_get_found)
  then have "title t \<noteq> None"
    using assms by (auto simp: titles_present_def list_all_iff)
  then have "title (patched b t) \<noteq> None"
    by (cases "title_field b") (simp_all add: patched_def)
  then show ?thesis
    using assms upd(3) by (auto simp: titles_present_def list_all_iff update_row_def)
next
  case (del j)
  then show ?thesis using assms by (auto simp: titles_present_def list_all_iff delete_row_def)
qed

lemma titles_present_run: "titles_present rows \<Longrightarrow> titles_present (run assign scan qs rows)"
  by (induction qs arbitrary: rows) (simp_all add: titles_present_step)



section \<open>The claims\<close>

subsection \<open>Update\<close>




lemma put_keeps_description:
  assumes "lookup_row j rows = Some r" and "description r \<noteq> None"
  shows "\<exists>r'. lookup_row j (snd (handle assign scan (PUT_todo i body) rows)) = Some r'
              \<and> description r' \<noteq> None"
proof (cases rule: handle_table [of assign scan "PUT_todo i body" rows])
  case same
  then show ?thesis using assms by simp
next
  case (ins todo)
  then show ?thesis by simp
next
  case (upd i' b t)
  have e: "i' = i" "b = body" using upd(1) by simp_all
  have k: "id' (patched body t) = Some i"
    using upd(2) e by (simp add: patched_key)
  have l: "lookup_row i rows = Some t"
    using upd(2) e by (simp add: session_get_found)
  show ?thesis
  proof (cases "j = i")
    case True
    then have "r = t" using assms(1) l by simp
    then have "description (patched body t) \<noteq> None"
      using assms(2) by (cases "description_field body") (simp_all add: patched_def)
    then show ?thesis
      using upd(3) e True lookup_row_update_row_same [OF l k] by simp
  next
    case False
    then show ?thesis
      using upd(3) e assms lookup_row_update_row_other [OF False k, of rows] by simp
  qed
next
  case (del i')
  then show ?thesis by simp
qed

text \<open>
  Claim C9. In the update, a key that the body carries with \<^verbatim>\<open>null\<close> is treated exactly as a
  key that is left out: both parse to the same \<open>TodoUpdate\<close> and give the same outcome
  and the same table. So no update clears a description: a row whose description is not
  null has a description that is not null after any PUT request.
\<close>

theorem null_treated_as_omitted:
  "TodoUpdate_parse (body\<lparr>description_field := Null\<rparr>) = TodoUpdate_parse (body\<lparr>description_field := Omitted\<rparr>)
   \<and> TodoUpdate_parse (body\<lparr>title_field := Null\<rparr>) = TodoUpdate_parse (body\<lparr>title_field := Omitted\<rparr>)
   \<and> handle assign scan (PUT_todo i (body\<lparr>description_field := Null\<rparr>)) rows
       = handle assign scan (PUT_todo i (body\<lparr>description_field := Omitted\<rparr>)) rows
   \<and> handle assign scan (PUT_todo i (body\<lparr>title_field := Null\<rparr>)) rows
       = handle assign scan (PUT_todo i (body\<lparr>title_field := Omitted\<rparr>)) rows
   \<and> (\<forall>j r. lookup_row j rows = Some r \<and> description r \<noteq> None \<longrightarrow>
          (\<exists>r'. lookup_row j (snd (handle assign scan (PUT_todo i body) rows)) = Some r'
                \<and> description r' \<noteq> None))"
proof -
  have d: "TodoUpdate_parse (body\<lparr>description_field := Null\<rparr>) = TodoUpdate_parse (body\<lparr>description_field := Omitted\<rparr>)"
    by (simp add: TodoUpdate_parse_def)
  have t: "TodoUpdate_parse (body\<lparr>title_field := Null\<rparr>) = TodoUpdate_parse (body\<lparr>title_field := Omitted\<rparr>)"
    by (simp add: TodoUpdate_parse_def)
  show ?thesis
    using d t put_keeps_description [of _ rows _ assign scan i body] by auto
qed

text \<open>A stored description and the body \<^verbatim>\<open>{"description": null}\<close>.\<close>

theorem null_treated_as_omitted_witness:
  "lookup_row 1 [\<lparr>id' = Some 1, title = Some ''T'', description = Some ''D''\<rparr>]
     = Some \<lparr>id' = Some 1, title = Some ''T'', description = Some ''D''\<rparr>
   \<and> handle (rowid_assign draw_one) rowid_scan (PUT_todo 1 \<lparr>title_field = Omitted, description_field = Null\<rparr>)
        [\<lparr>id' = Some 1, title = Some ''T'', description = Some ''D''\<rparr>]
     = handle (rowid_assign draw_one) rowid_scan (PUT_todo 1 \<lparr>title_field = Omitted, description_field = Omitted\<rparr>)
        [\<lparr>id' = Some 1, title = Some ''T'', description = Some ''D''\<rparr>]
   \<and> (\<exists>r'. lookup_row 1 (snd (handle (rowid_assign draw_one) rowid_scan
                (PUT_todo 1 \<lparr>title_field = Omitted, description_field = Null\<rparr>)
                [\<lparr>id' = Some 1, title = Some ''T'', description = Some ''D''\<rparr>])) = Some r'
           \<and> description r' \<noteq> None)"
  using null_treated_as_omitted
    [of "\<lparr>title_field = Omitted, description_field = Null\<rparr>" "rowid_assign draw_one" rowid_scan 1
        "[\<lparr>id' = Some 1, title = Some ''T'', description = Some ''D''\<rparr>]"]
  by (simp add: update_todo_def TodoUpdate_parse_def update_row_def session_refresh_def
      session_get_def key_range_def Let_def)

subsection \<open>An id that no row has\<close>

text \<open>
  C2, as stated, fails for an id that does not fit the key column: no row has the id
  9223372036854775808, and get, update and delete are answered with status 500, not 404.
\<close>

theorem missing_row_overflow_counterexample:
  "lookup_row 9223372036854775808 [] = None
   \<and> app (rowid_assign draw_one) rowid_scan (GET_todo 9223372036854775808) []
     = ((500, JString ''Internal Server Error''), [])
   \<and> app (rowid_assign draw_one) rowid_scan
        (PUT_todo 9223372036854775808 \<lparr>title_field = Value ''New Title'', description_field = Omitted\<rparr>) []
     = ((500, JString ''Internal Server Error''), [])
   \<and> app (rowid_assign draw_one) rowid_scan (DELETE_todo 9223372036854775808) []
     = ((500, JString ''Internal Server Error''), [])"
  by (simp add: app_def todo_by_id_def update_todo_def delete_todo_def session_get_def key_range_def)

text \<open>
  Claim C2 (amended). For every id \<open>i\<close> that fits the key column (a signed 64-bit integer)
  and has no stored row, get, update and delete each raise
  \<^verbatim>\<open>HTTPException(404, "Todo not found")\<close>, sent as status 404 with the body
  \<^verbatim>\<open>{"detail": "Todo not found"}\<close>. For an id that does not fit the key column each of them
  raises the persistence layer's overflow error, sent as status 500, and leaves the table
  as it was. Whenever any request raises an \<^verbatim>\<open>HTTPException\<close>, it is the not-found one,
  raised by get, update or delete for an id that fits the column and has no stored row.
\<close>

theorem missing_row_is_404:
  "(key_range i \<and> \<not> stored i rows \<longrightarrow>
      todo_by_id i rows = (Inl (HTTPException 404 ''Todo not found''), rows)
    \<and> update_todo i (TodoUpdate_parse body) rows = (Inl (HTTPException 404 ''Todo not found''), rows)
    \<and> delete_todo i rows = (Inl (HTTPException 404 ''Todo not found''), rows)
    \<and> fst (app assign scan (GET_todo i) rows) = (404, JObject [(''detail'', JString ''Todo not found'')])
    \<and> fst (app assign scan (PUT_todo i body) rows) = (404, JObject [(''detail'', JString ''Todo not found'')])
    \<and> fst (app assign scan (DELETE_todo i) rows) = (404, JObject [(''detail'', JString ''Todo not found'')]))
   \<and> (\<not> key_range i \<longrightarrow>
      todo_by_id i rows = (Inl OverflowError, rows)
    \<and> update_todo i (TodoUpdate_parse body) rows = (Inl OverflowError, rows)
    \<and> delete_todo i rows = (Inl OverflowError, rows)
    \<and> app assign scan (GET_todo i) rows = ((500, JString ''Internal Server Error''), rows)
    \<and> app assign scan (PUT_todo i body) rows = ((500, JString ''Internal Server Error''), rows)
    \<and> app assign scan (DELETE_todo i) rows = ((500, JString ''Internal Server Error''), rows))
   \<and> (\<forall>req c d. fst (handle assign scan req rows) = Inl (HTTPException c d) \<longrightarrow>
          c = 404 \<and> d = ''Todo not found''
          \<and> (\<exists>j. (req = GET_todo j \<or> req = DELETE_todo j \<or> (\<exists>b. req = PUT_todo j b))
                   \<and> key_range j \<and> \<not> stored j rows))"
proof -
  have m: "todo_by_id i rows = (Inl (HTTPException 404 ''Todo not found''), rows)
           \<and> update_todo i (TodoUpdate_parse body) rows = (Inl (HTTPException 404 ''Todo not found''), rows)
           \<and> delete_todo i rows = (Inl (HTTPException 404 ''Todo not found''), rows)"
    if "key_range i" "\<not> stored i rows"
  proof -
    have "session_get i rows = Inr None" using that by (simp add: session_get_missing)
    then show ?thesis by (simp add: todo_by_id_def update_todo_def delete_todo_def)
  qed
  have a: "fst (app assign scan (GET_todo i) rows) = (404, JObject [(''detail'', JString ''Todo not found'')])
           \<and> fst (app assign scan (PUT_todo i body) rows) = (404, JObject [(''detail'', JString ''Todo not found'')])
           \<and> fst (app assign scan (DELETE_todo i) rows) = (404, JObject [(''detail'', JString ''Todo not found'')])"
    if "key_range i" "\<not> stored i rows"
    using m [OF that] by (simp add: app_def)
  have v: "todo_by_id i rows = (Inl OverflowError, rows)
           \<and> update_todo i (TodoUpdate_parse body) rows = (Inl OverflowError, rows)
           \<and> delete_todo i rows = (Inl OverflowError, rows)"
    if "\<not> key_range i"
    using that by (simp add: todo_by_id_def update_todo_def delete_todo_def session_get_def)
  have w: "app assign scan (GET_todo i) rows = ((500, JString ''Internal Server Error''), rows)
           \<and> app assign scan (PUT_todo i body) rows = ((500, JString ''Internal Server Error''), rows)
           \<and> app assign scan (DELETE_todo i) rows = ((500, JString ''Internal Server Error''), rows)"
    if "\<not> key_range i"
    using v [OF that] by (simp add: app_def)
  show ?thesis
    using m a v w handle_http_error [of assign scan _ rows] by blast
qed

text \<open>The id 999 of the repository's tests and an id that does not fit, on an empty table.\<close>

theorem missing_row_is_404_witness:
  "key_range 999 \<and> \<not> stored 999 []
   \<and> fst (app (rowid_assign draw_one) rowid_scan (GET_todo 999) [])
        = (404, JObject [(''detail'', JString ''Todo not found'')])
   \<and> fst (app (rowid_assign draw_one) rowid_scan
        (PUT_todo 999 \<lparr>title_field = Value ''New Title'', description_field = Omitted\<rparr>) [])
        = (404, JObject [(''detail'', JString ''Todo not found'')])
   \<and> fst (app (rowid_assign draw_one) rowid_scan (DELETE_todo 999) [])
        = (404, JObject [(''detail'', JString ''Todo not found'')])
   \<and> fst (handle (rowid_assign draw_one) rowid_scan (GET_todo 999) []) = Inl (HTTPException 404 ''Todo not found'')
   \<and> \<not> key_range (- 9223372036854775809)
   \<and> app (rowid_assign draw_one) rowid_scan (DELETE_todo (- 9223372036854775809)) []
        = ((500, JString ''Internal Server Error''), [])"
  using missing_row_is_404
    [of 999 "[]" "\<lparr>title_field = Value ''New Title'', description_field = Omitted\<rparr>"
        "rowid_assign draw_one" rowid_scan]
    missing_row_is_404
    [of "- 9223372036854775809" "[]" "\<lparr>title_field = Value ''New Title'', description_field = Omitted\<rparr>"
        "rowid_assign draw_one" rowid_scan]
  by (simp add: stored_def key_range_def)

lemma session_refresh_not_http: "session_refresh i rows \<noteq> Inl (HTTPException c d)"
  by (cases rule: session_get_cases [of i rows]) (simp_all add: session_refresh_def)

text \<open>
  Claim C10. Whenever get, update or delete raises the not-found error, the table it
  leaves is the table it was given; and any request answered with status 404 leaves the
  table as it was.
\<close>

theorem not_found_changes_nothing:
  "(fst (todo_by_id i rows) = Inl (HTTPException 404 ''Todo not found'') \<longrightarrow> snd (todo_by_id i rows) = rows)
   \<and> (fst (update_todo i u rows) = Inl (HTTPException 404 ''Todo not found'') \<longrightarrow> snd (update_todo i u rows) = rows)
   \<and> (fst (delete_todo i rows) = Inl (HTTPException 404 ''Todo not found'') \<longrightarrow> snd (delete_todo i rows) = rows)
   \<and> (fst (fst (app assign scan req rows)) = 404 \<longrightarrow> snd (app assign scan req rows) = rows)"
proof -
  have g: "snd (todo_by_id i rows) = rows"
    by (simp add: todo_by_id_def split: sum.splits option.splits)
  have u: "snd (update_todo i u rows) = rows"
    if h: "fst (update_todo i u rows) = Inl (HTTPException 404 ''Todo not found'')"
  proof (cases rule: session_get_cases [of i rows])
    case overflow
    then show ?thesis by (simp add: update_todo_def)
  next
    case missing
    then show ?thesis by (simp add: update_todo_def)
  next
    case (found t)
    then have "\<exists>j rows'. fst (update_todo i u rows) = session_refresh j rows'"
      by (auto simp: update_todo_def Let_def)
    then show ?thesis
      using h session_refresh_not_http by metis
  qed
  have d: "snd (delete_todo i rows) = rows"
    if "fst (delete_todo i rows) = Inl (HTTPException 404 ''Todo not found'')"
    using that by (cases rule: session_get_cases [of i rows]) (simp_all add: delete_todo_def)
  have r: "snd (app assign scan req rows) = rows" if s: "fst (fst (app assign scan req rows)) = 404"
  proof (cases "fst (handle assign scan req rows)")
    case (Inl e)
    then show ?thesis
      using s handle_http_error [of assign scan req rows]
      by (cases e) (simp_all add: app_def)
  next
    case (Inr v)
    then show ?thesis using s by (simp add: app_def)
  qed
  show ?thesis using g u d r by blast
qed

text \<open>A table of one row, addressed at an id it does not hold.\<close>

theorem not_found_changes_nothing_witness:
  "fst (todo_by_id 999 [\<lparr>id' = Some 1, title = Some ''T'', description = None\<rparr>]) = Inl (HTTPException 404 ''Todo not found'')
   \<and> snd (todo_by_id 999 [\<lparr>id' = Some 1, title = Some ''T'', description = None\<rparr>]) = [\<lparr>id' = Some 1, title = Some ''T'', description = None\<rparr>]
   \<and> fst (update_todo 999 \<lparr>title_upd = Some ''N'', description_upd = None\<rparr> [\<lparr>id' = Some 1, title = Some ''T'', description = None\<rparr>])
        = Inl (HTTPException 404 ''Todo not found'')
   \<and> snd (update_todo 999 \<lparr>title_upd = Some ''N'', description_upd = None\<rparr> [\<lparr>id' = Some 1, title = Some ''T'', description = None\<rparr>])
        = [\<lparr>id' = Some 1, title = Some ''T'', description = None\<rparr>]
   \<and> fst (delete_todo 999 [\<lparr>id' = Some 1, title = Some ''T'', description = None\<rparr>]) = Inl (HTTPException 404 ''Todo not found'')
   \<and> snd (delete_todo 999 [\<lparr>id' = Some 1, title = Some ''T'', description = None\<rparr>]) = [\<lparr>id' = Some 1, title = Some ''T'', description = None\<rparr>]
   \<and> fst (fst (app (rowid_assign draw_one) rowid_scan (DELETE_todo 999) [\<lparr>id' = Some 1, title = Some ''T'', description = None\<rparr>])) = 404
   \<and> snd (app (rowid_assign draw_one) rowid_scan (DELETE_todo 999) [\<lparr>id' = Some 1, title = Some ''T'', description = None\<rparr>])
        = [\<lparr>id' = Some 1, title = Some ''T'', description = None\<rparr>]"
  using not_found_changes_nothing
    [of 999 "[\<lparr>id' = Some 1, title = Some ''T'', description = None\<rparr>]"
        "\<lparr>title_upd = Some ''N'', description_upd = None\<rparr>" "rowid_assign draw_one" rowid_scan "DELETE_todo 999"]
  by (simp add: todo_by_id_def update_todo_def delete_todo_def app_def session_get_def key_range_def)

subsection \<open>Delete\<close>

text \<open>
  Claim C4. For every stored Todo with id \<open>i\<close>, delete of \<open>i\<close> succeeds with status 200 and
  the body \<^verbatim>\<open>{"message": "Todo deleted successfully"}\<close> and removes the row: no row with id
  \<open>i\<close> is left, every other id gives the row it gave before, and after any further
  requests of which none inserts a row with id \<open>i\<close>, get of \<open>i\<close> is answered with status 404.
\<close>

theorem delete_is_permanent:
  assumes "stored i rows"
  shows "delete_todo i rows = (Inr [(''message'', ''Todo deleted successfully'')], delete_row i rows)
         \<and> app assign scan (DELETE_todo i) rows
             = ((200, JObject [(''message'', JString ''Todo deleted successfully'')]), delete_row i rows)
         \<and> \<not> stored i (delete_row i rows)
         \<and> (\<forall>j. j \<noteq> i \<longrightarrow> session_get j (delete_row i rows) = session_get j rows)
         \<and> (\<forall>qs. never_inserts assign scan i qs (delete_row i rows) \<longrightarrow>
                fst (app assign scan (GET_todo i) (run assign scan qs (delete_row i rows)))
                  = (404, JObject [(''detail'', JString ''Todo not found'')]))"
proof -
  obtain t where t: "session_get i rows = Inr (Some t)"
    using assms by (auto simp: stored_found)
  have k: "key_range i" using assms by (simp add: stored_def)
  have d: "delete_todo i rows = (Inr [(''message'', ''Todo deleted successfully'')], delete_row i rows)"
    using t by (simp add: delete_todo_def)
  have a: "app assign scan (DELETE_todo i) rows
             = ((200, JObject [(''message'', JString ''Todo deleted successfully'')]), delete_row i rows)"
    using d by (simp add: app_def)
  have n: "\<not> stored i (delete_row i rows)"
    by (simp add: stored_def keys_delete_row)
  have o: "session_get j (delete_row i rows) = session_get j rows" if "j \<noteq> i" for j
    using that by (simp add: session_get_def lookup_row_delete_row)
  have g: "fst (app assign scan (GET_todo i) (run assign scan qs (delete_row i rows)))
             = (404, JObject [(''detail'', JString ''Todo not found'')])"
    if "never_inserts assign scan i qs (delete_row i rows)" for qs
  proof -
    have "\<not> stored i (run assign scan qs (delete_row i rows))"
      using n that by (rule stored_run)
    then have "session_get i (run assign scan qs (delete_row i rows)) = Inr None"
      using k by (simp add: session_get_missing)
    then show ?thesis by (simp add: app_def todo_by_id_def)
  qed
  show ?thesis using d a n o g by blast
qed

text \<open>
  The delete of the repository's test on a table that holds a second row, followed by a
  listing and a second delete.
\<close>

theorem delete_is_permanent_witness:
  "stored 1 [\<lparr>id' = Some 1, title = Some ''Delete Me'', description = Some ''To be deleted''\<rparr>,
             \<lparr>id' = Some 2, title = Some ''Keep Me'', description = None\<rparr>]
   \<and> app (rowid_assign draw_one) rowid_scan (DELETE_todo 1)
        [\<lparr>id' = Some 1, title = Some ''Delete Me'', description = Some ''To be deleted''\<rparr>,
         \<lparr>id' = Some 2, title = Some ''Keep Me'', description = None\<rparr>]
     = ((200, JObject [(''message'', JString ''Todo deleted successfully'')]),
        [\<lparr>id' = Some 2, title = Some ''Keep Me'', description = None\<rparr>])
   \<and> session_get 2 [\<lparr>id' = Some 2, title = Some ''Keep Me'', description = None\<rparr>]
     = session_get 2 [\<lparr>id' = Some 1, title = Some ''Delete Me'', description = Some ''To be deleted''\<rparr>,
                      \<lparr>id' = Some 2, title = Some ''Keep Me'', description = None\<rparr>]
   \<and> never_inserts (rowid_assign draw_one) rowid_scan 1 [GET_allTodo, DELETE_todo 1]
        [\<lparr>id' = Some 2, title = Some ''Keep Me'', description = None\<rparr>]
   \<and> fst (app (rowid_assign draw_one) rowid_scan (GET_todo 1)
        (run (rowid_assign draw_one) rowid_scan [GET_allTodo, DELETE_todo 1]
           [\<lparr>id' = Some 2, title = Some ''Keep Me'', description = None\<rparr>]))
     = (404, JObject [(''detail'', JString ''Todo not found'')])"
  using delete_is_permanent
    [of 1 "[\<lparr>id' = Some 1, title = Some ''Delete Me'', description = Some ''To be deleted''\<rparr>,
            \<lparr>id' = Some 2, title = Some ''Keep Me'', description = None\<rparr>]"
        "rowid_assign draw_one" rowid_scan]
  by (simp add: stored_def delete_row_def all_todo_def delete_todo_def app_def todo_by_id_def
      session_get_def key_range_def)

subsection \<open>The generator of the engine that keys by row id\<close>





subsection \<open>Create\<close>




text \<open>
  Claim C6. When create has returned a Todo, fetching the returned id from the table that
  create left gives that same Todo (id, title, description), and the two responses are
  equal.
\<close>

theorem create_then_get:
  assumes "create_todo assign todo rows = (Inr t, rows')"
  shows "id' t = Some (new_key assign todo rows)
         \<and> title t = title todo \<and> description t = description todo
         \<and> todo_by_id (new_key assign todo rows) rows' = (Inr t, rows')
         \<and> fst (app assign scan (GET_todo (new_key assign todo rows)) rows')
             = fst (app assign scan (POST_createTodo todo) rows)"
proof (cases rule: create_todo_cases [of assign todo rows])
  case overflow
  then show ?thesis using assms by simp
next
  case rejected
  then show ?thesis using assms by simp
next
  case inserted
  have e: "(Inr t, rows') = (Inr (todo\<lparr>id' := Some (new_key assign todo rows)\<rparr>) :: error + Todo,
                              rows @ [todo\<lparr>id' := Some (new_key assign todo rows)\<rparr>])"
    using inserted(4) by (simp only: assms)
  have t: "t = todo\<lparr>id' := Some (new_key assign todo rows)\<rparr>"
    using e by (simp only: prod.inject sum.inject)
  have r: "rows' = rows @ [t]"
    using e by (simp only: prod.inject sum.inject t)
  have "lookup_row (new_key assign todo rows) rows = None"
    using inserted(1,3) by (simp add: lookup_row_None_iff stored_def)
  then have g: "session_get (new_key assign todo rows) rows' = Inr (Some t)"
    using t r inserted(1) by (simp add: session_get_def lookup_row_append)
  show ?thesis
    using g t assms by (simp add: todo_by_id_def app_def)
qed

text \<open>The create and fetch of the repository's test.\<close>

theorem create_then_get_witness:
  "create_todo (rowid_assign draw_one) \<lparr>id' = None, title = Some ''Find Me'', description = Some ''Find this todo''\<rparr> []
     = (Inr \<lparr>id' = Some 1, title = Some ''Find Me'', description = Some ''Find this todo''\<rparr>,
        [\<lparr>id' = Some 1, title = Some ''Find Me'', description = Some ''Find this todo''\<rparr>])
   \<and> todo_by_id 1 [\<lparr>id' = Some 1, title = Some ''Find Me'', description = Some ''Find this todo''\<rparr>]
     = (Inr \<lparr>id' = Some 1, title = Some ''Find Me'', description = Some ''Find this todo''\<rparr>,
        [\<lparr>id' = Some 1, title = Some ''Find Me'', description = Some ''Find this todo''\<rparr>])"
proof -
  have c: "create_todo (rowid_assign draw_one) \<lparr>id' = None, title = Some ''Find Me'', description = Some ''Find this todo''\<rparr> []
     = (Inr \<lparr>id' = Some 1, title = Some ''Find Me'', description = Some ''Find this todo''\<rparr>,
        [\<lparr>id' = Some 1, title = Some ''Find Me'', description = Some ''Find this todo''\<rparr>])"
    by (simp add: create_todo_def insert_row_def new_key_def stored_def rowid_assign_def
        session_refresh_def session_get_def key_range_def Let_def)
  show ?thesis
    using c create_then_get [OF c] by (simp add: new_key_def rowid_assign_def)
qed

subsection \<open>The invariants of the table\<close>

text \<open>
  Claim C7. Every request (create, list, get, update, delete) preserves that every row of
  the table has an id that is not null and a title that is not null, and so does every
  sequence of requests from the empty table; each such row is sent with an integer id and
  a string title. A create request without a title stores nothing. The description may
  be null: a request that carries none stores a row whose description is null.
\<close>

theorem persisted_rows_have_keys:
  "(keys_present rows \<and> titles_present rows \<longrightarrow>
      keys_present (snd (handle assign scan req rows))
      \<and> titles_present (snd (handle assign scan req rows))
      \<and> (\<forall>r\<in>set (snd (handle assign scan req rows)).
            \<exists>k s d. Todo_json r = JObject [(''id'', JInt k), (''title'', JString s), (''description'', d)]))
   \<and> keys_present (run assign scan qs []) \<and> titles_present (run assign scan qs [])
   \<and> (title todo = None \<longrightarrow> snd (handle assign scan (POST_createTodo todo) rows) = rows)
   \<and> (title todo \<noteq> None \<and> key_range (new_key assign todo rows)
        \<and> \<not> stored (new_key assign todo rows) rows \<and> description todo = None \<longrightarrow>
        list_ex (\<lambda>r. description r = None) (snd (handle assign scan (POST_createTodo todo) rows)))"
proof -
  have j: "\<exists>k s d. Todo_json r = JObject [(''id'', JInt k), (''title'', JString s), (''description'', d)]"
    if "keys_present rows'" "titles_present rows'" "r \<in> set rows'" for rows' r
  proof -
    have "id' r \<noteq> None" "title r \<noteq> None"
      using that by (auto simp: keys_present_def titles_present_def list_all_iff)
    then show ?thesis by (auto simp: Todo_json_def)
  qed
  have e: "keys_present (run assign scan qs [])"
    by (rule keys_present_run) (simp add: keys_present_def)
  have f: "titles_present (run assign scan qs [])"
    by (rule titles_present_run) (simp add: titles_present_def)
  have u: "snd (handle assign scan (POST_createTodo todo) rows) = rows" if "title todo = None"
    using that by (cases rule: create_todo_cases [of assign todo rows]) simp_all
  have n: "list_ex (\<lambda>r. description r = None) (snd (handle assign scan (POST_createTodo todo) rows))"
    if "title todo \<noteq> None" "key_range (new_key assign todo rows)"
       "\<not> stored (new_key assign todo rows) rows" "description todo = None"
    using create_todo_free [OF that(2) that(1) that(3)] that(4) by simp
  show ?thesis
    using keys_present_step [of rows assign scan req] titles_present_step [of rows assign scan req]
      j e f u n by blast
qed

text \<open>
  A table of one row, a create request without a description, and one without a title.
\<close>

theorem persisted_rows_have_keys_witness:
  "keys_present [\<lparr>id' = Some 1, title = Some ''T'', description = None\<rparr>]
   \<and> titles_present [\<lparr>id' = Some 1, title = Some ''T'', description = None\<rparr>]
   \<and> snd (handle (rowid_assign draw_one) rowid_scan
        (POST_createTodo \<lparr>id' = None, title = Some ''U'', description = None\<rparr>)
        [\<lparr>id' = Some 1, title = Some ''T'', description = None\<rparr>])
     = [\<lparr>id' = Some 1, title = Some ''T'', description = None\<rparr>,
        \<lparr>id' = Some 2, title = Some ''U'', description = None\<rparr>]
   \<and> keys_present [\<lparr>id' = Some 1, title = Some ''T'', description = None\<rparr>,
        \<lparr>id' = Some 2, title = Some ''U'', description = None\<rparr>]
   \<and> titles_present [\<lparr>id' = Some 1, title = Some ''T'', description = None\<rparr>,
        \<lparr>id' = Some 2, title = Some ''U'', description = None\<rparr>]
   \<and> Todo_json \<lparr>id' = Some 2, title = Some ''U'', description = None\<rparr>
     = JObject [(''id'', JInt 2), (''title'', JString ''U''), (''description'', JNull)]
   \<and> key_range (new_key (rowid_assign draw_one) \<lparr>id' = None, title = Some ''U'', description = None\<rparr>
          [\<lparr>id' = Some 1, title = Some ''T'', description = None\<rparr>])
   \<and> \<not> stored (new_key (rowid_assign draw_one) \<lparr>id' = None, title = Some ''U'', description = None\<rparr>
          [\<lparr>id' = Some 1, title = Some ''T'', description = None\<rparr>])
        [\<lparr>id' = Some 1, title = Some ''T'', description = None\<rparr>]
   \<and> list_ex (\<lambda>r. description r = None)
        [\<lparr>id' = Some 1, title = Some ''T'', description = None\<rparr>,
         \<lparr>id' = Some 2, title = Some ''U'', description = None\<rparr>]
   \<and> app (rowid_assign draw_one) rowid_scan
        (POST_createTodo \<lparr>id' = None, title = None, description = Some ''D''\<rparr>)
        [\<lparr>id' = Some 1, title = Some ''T'', description = None\<rparr>]
     = ((500, JString ''Internal Server Error''), [\<lparr>id' = Some 1, title = Some ''T'', description = None\<rparr>])"
  using persisted_rows_have_keys
    [of "[\<lparr>id' = Some 1, title = Some ''T'', description = None\<rparr>]" "rowid_assign draw_one" rowid_scan
        "POST_createTodo \<lparr>id' = None, title = Some ''U'', description = None\<rparr>" "[]"
        "\<lparr>id' = None, title = Some ''U'', description = None\<rparr>"]
    persisted_rows_have_keys
    [of "[\<lparr>id' = Some 1, title = Some ''T'', description = None\<rparr>]" "rowid_assign draw_one" rowid_scan
        "GET_allTodo" "[]" "\<lparr>id' = None, title = None, description = Some ''D''\<rparr>"]
  by (simp add: keys_present_def titles_present_def stored_def new_key_def rowid_assign_def
      create_todo_def insert_row_def session_refresh_def session_get_def key_range_def Let_def
      Todo_json_def app_def)




subsection \<open>Listing\<close>









end
